theory Spec2Isabelle
  imports Main
begin

section \<open>Data model\<close>

text \<open>
  The pipeline works on parsed JSON: \<^verbatim>\<open>json_data = Dict[str, Union[str, List[str]]]\<close> in
  the annotations of \<^verbatim>\<open>core.py\<close>, nested dictionaries in what the endpoints return.
  A Python dictionary keeps its keys unique and in insertion order, so an object is an
  association list. Floating-point numbers are left out of the model.
\<close>

datatype json =
    JNull
  | JBool bool
  | JInt int
  | JStr string
  | JArr "json list"
  | JObj "(string \<times> json) list"

type_synonym json_data = "(string \<times> json) list"

text \<open>
  Exceptions are values. The text carried by \<open>KeyError\<close> and \<open>ValueError\<close> is the
  message (for \<open>KeyError\<close> raised by a subscript, the missing key); messages built by
  the Python library are abbreviated.
\<close>

datatype py_error =
    KeyError string
  | ValueError string
  | TypeError string
  | AttributeError string
  | UnboundLocalError string
  | OverflowError string
  | IndexError string
  | SystemExit string

text \<open>Truth value testing, as \<^verbatim>\<open>if x:\<close> and \<^verbatim>\<open>not x\<close> do it.\<close>

fun py_truthy :: "json \<Rightarrow> bool" where
  "py_truthy JNull = False"
| "py_truthy (JBool b) = b"
| "py_truthy (JInt n) = (n \<noteq> 0)"
| "py_truthy (JStr s) = (s \<noteq> [])"
| "py_truthy (JArr xs) = (xs \<noteq> [])"
| "py_truthy (JObj kvs) = (kvs \<noteq> [])"

text \<open>
  The operator \<^verbatim>\<open>==\<close> on parsed JSON: \<^verbatim>\<open>bool\<close> is a subclass of \<^verbatim>\<open>int\<close>
  (\<^verbatim>\<open>True == 1\<close>), lists compare element by element, dictionaries compare as
  finite maps, whatever the order of their keys; values of different kinds are unequal.
\<close>

fun py_eq :: "json \<Rightarrow> json \<Rightarrow> bool" where
  "py_eq JNull y = (y = JNull)"
| "py_eq (JBool b) y =
     (case y of JBool c \<Rightarrow> b = c | JInt n \<Rightarrow> (if b then 1 else 0) = n | _ \<Rightarrow> False)"
| "py_eq (JInt m) y =
     (case y of JBool c \<Rightarrow> m = (if c then 1 else 0) | JInt n \<Rightarrow> m = n | _ \<Rightarrow> False)"
| "py_eq (JStr s) y = (y = JStr s)"
| "py_eq (JArr xs) y = (case y of JArr ys \<Rightarrow> list_all2 py_eq xs ys | _ \<Rightarrow> False)"
| "py_eq (JObj kvs) y =
     (case y of
        JObj lws \<Rightarrow>
          length kvs = length lws \<and>
          list_all (\<lambda>(k, v). case map_of lws k of None \<Rightarrow> False | Some w \<Rightarrow> py_eq v w) kvs
      | _ \<Rightarrow> False)"

subsection \<open>Dictionaries\<close>

text \<open>\<^verbatim>\<open>d[k]\<close> read: the value, or \<^verbatim>\<open>KeyError(k)\<close>.\<close>

definition dict_get :: "json_data \<Rightarrow> string \<Rightarrow> py_error + json" where
  "dict_get d k = (case map_of d k of None \<Rightarrow> Inl (KeyError k) | Some v \<Rightarrow> Inr v)"

text \<open>
  \<^verbatim>\<open>d[k] = v\<close> and \<^verbatim>\<open>d.update({k: v})\<close>: a key already present keeps its place
  and takes the new value, a new key goes to the end.
\<close>

fun dict_set :: "json_data \<Rightarrow> string \<Rightarrow> json \<Rightarrow> json_data" where
  "dict_set [] k v = [(k, v)]"
| "dict_set ((k', v') # d) k v = (if k' = k then (k, v) # d else (k', v') # dict_set d k v)"

text \<open>Sequencing of steps that may raise: the first exception ends the computation.\<close>

definition bind_result :: "py_error + 'a \<Rightarrow> ('a \<Rightarrow> py_error + 'b) \<Rightarrow> py_error + 'b" where
  "bind_result m f = (case m of Inl e \<Rightarrow> Inl e | Inr x \<Rightarrow> f x)"

section \<open>Python library functions the source calls\<close>

text \<open>
  Strings are lists of 8-bit characters, that is, the code points below 256.
  \<open>py_isspace\<close> is \<^verbatim>\<open>str.isspace\<close> on one character (also the class \<^verbatim>\<open>\s\<close> of a
  \<^verbatim>\<open>str\<close> pattern), \<open>py_isdigit\<close> the class \<^verbatim>\<open>\d\<close>: below 256 these are the twelve
  white-space code points and the ten ASCII digits.
\<close>

definition py_isspace :: "char \<Rightarrow> bool" where
  "py_isspace c = (of_char c \<in> set [9, 10, 11, 12, 13, 28, 29, 30, 31, 32, 133, 160 :: nat])"

definition py_isdigit :: "char \<Rightarrow> bool" where
  "py_isdigit c = (c \<in> set ''0123456789'')"

definition digit_val :: "char \<Rightarrow> int" where
  "digit_val c = int (of_char c) - 48"

definition digit_char :: "nat \<Rightarrow> char" where
  "digit_char n = ''0123456789'' ! n"

subsection \<open>\<^verbatim>\<open>int(s)\<close> on a string\<close>

text \<open>
  \<^verbatim>\<open>int\<close> in base 10 skips surrounding white space, takes one optional sign, and then
  wants decimal digits, where single underscores may stand between two digits.
  Anything else is a \<^verbatim>\<open>ValueError\<close>, here \<open>None\<close>.
  The white space of \<^verbatim>\<open>int\<close> is not that of \<^verbatim>\<open>str.isspace\<close>: the conversion turns
  the white-space characters from U+007F on into blanks and then skips the ASCII white
  space of C, so that the separators U+001C to U+001F are not skipped.
  A number written with more than 4300 digits is refused (the default of
  \<^verbatim>\<open>sys.int_info.default_max_str_digits\<close>), leading zeros counted.
\<close>

definition int_isspace :: "char \<Rightarrow> bool" where
  "int_isspace c = (of_char c \<in> set [9, 10, 11, 12, 13, 32, 133, 160 :: nat])"

definition max_str_digits :: nat where
  "max_str_digits = 4300"

fun int_digits :: "int \<Rightarrow> string \<Rightarrow> int option" where
  "int_digits acc [] = Some acc"
| "int_digits acc (c # cs) =
     (if py_isdigit c then int_digits (10 * acc + digit_val c) cs
      else if c = CHR ''_'' then
        (case cs of
           [] \<Rightarrow> None
         | d # ds \<Rightarrow> if py_isdigit d then int_digits (10 * acc + digit_val d) ds else None)
      else None)"

definition int_unsigned :: "string \<Rightarrow> int option" where
  "int_unsigned s =
     (case s of
        [] \<Rightarrow> None
      | c # cs \<Rightarrow>
          if py_isdigit c then
            (case int_digits (digit_val c) cs of
               None \<Rightarrow> None
             | Some n \<Rightarrow> if length (filter py_isdigit s) > max_str_digits then None else Some n)
          else None)"

definition int_strip :: "string \<Rightarrow> string" where
  "int_strip s = rev (dropWhile int_isspace (rev (dropWhile int_isspace s)))"

definition py_int :: "string \<Rightarrow> int option" where
  "py_int s =
     (case int_strip s of
        [] \<Rightarrow> None
      | c # cs \<Rightarrow>
          if c = CHR ''+'' then int_unsigned cs
          else if c = CHR ''-'' then map_option uminus (int_unsigned cs)
          else int_unsigned (c # cs))"

text \<open>
  The \<^verbatim>\<open>ValueError\<close> of a refused conversion. The conversion reads, after the white
  space and the sign, the run of digits and underscores; when that run is well formed
  and has more than 4300 digits it raises the error of the limit, before it looks at
  what follows the run. Every other refusal is the error of an invalid literal.
  The messages are given without the part that quotes the value.
\<close>

definition invalid_literal_msg :: string where
  "invalid_literal_msg = ''invalid literal for int() with base 10''"

definition exceeds_limit_msg :: string where
  "exceeds_limit_msg = ''Exceeds the limit (4300 digits) for integer string conversion''"

definition int_body :: "string \<Rightarrow> string" where
  "int_body s =
     (case dropWhile int_isspace s of
        [] \<Rightarrow> []
      | c # cs \<Rightarrow> if c = CHR ''+'' \<or> c = CHR ''-'' then cs else c # cs)"

definition exceeds_limit :: "string \<Rightarrow> bool" where
  "exceeds_limit s =
     (case takeWhile (\<lambda>c. py_isdigit c \<or> c = CHR ''_'') (int_body s) of
        [] \<Rightarrow> False
      | c # cs \<Rightarrow>
          py_isdigit c \<and> int_digits (digit_val c) cs \<noteq> None \<and>
          length (filter py_isdigit (c # cs)) > max_str_digits)"

definition int_error :: "string \<Rightarrow> py_error" where
  "int_error s = ValueError (if exceeds_limit s then exceeds_limit_msg else invalid_literal_msg)"

subsection \<open>The proleptic Gregorian calendar of \<^verbatim>\<open>datetime\<close>\<close>

text \<open>
  The day arithmetic of the \<^verbatim>\<open>datetime\<close> module, after its Python implementation:
  a date is converted to its ordinal (1 is 0001-01-01) and back.
\<close>

definition is_leap :: "int \<Rightarrow> bool" where
  "is_leap year = (year mod 4 = 0 \<and> (year mod 100 \<noteq> 0 \<or> year mod 400 = 0))"

definition DAYS_IN_MONTH :: "int list" where
  "DAYS_IN_MONTH = [-1, 31, 28, 31, 30, 31, 30, 31, 31, 30, 31, 30, 31]"

definition DAYS_BEFORE_MONTH :: "int list" where
  "DAYS_BEFORE_MONTH = [-1, 0, 31, 59, 90, 120, 151, 181, 212, 243, 273, 304, 334]"

definition days_before_year :: "int \<Rightarrow> int" where
  "days_before_year year = (let y = year - 1 in y * 365 + y div 4 - y div 100 + y div 400)"

definition days_in_month :: "int \<Rightarrow> int \<Rightarrow> int" where
  "days_in_month year month =
     (if month = 2 \<and> is_leap year then 29 else DAYS_IN_MONTH ! nat month)"

definition days_before_month :: "int \<Rightarrow> int \<Rightarrow> int" where
  "days_before_month year month =
     DAYS_BEFORE_MONTH ! nat month + (if month > 2 \<and> is_leap year then 1 else 0)"

definition ymd2ord :: "int \<Rightarrow> int \<Rightarrow> int \<Rightarrow> int" where
  "ymd2ord year month day = days_before_year year + days_before_month year month + day"

definition MAXORDINAL :: int where
  "MAXORDINAL = 3652059"

definition ord2ymd :: "int \<Rightarrow> int \<times> int \<times> int" where
  "ord2ymd ordinal =
     (let n = ordinal - 1;
          n400 = n div 146097; n = n mod 146097;
          year = n400 * 400 + 1;
          n100 = n div 36524; n = n mod 36524;
          n4 = n div 1461; n = n mod 1461;
          n1 = n div 365; n = n mod 365;
          year = year + (n100 * 100 + n4 * 4 + n1)
      in if n1 = 4 \<or> n100 = 4 then (year - 1, 12, 31)
         else
           let leapyear = (n1 = 3 \<and> (n4 \<noteq> 24 \<or> n100 = 3));
               month = (n + 50) div 32;
               preceding = DAYS_BEFORE_MONTH ! nat month + (if month > 2 \<and> leapyear then 1 else 0)
           in if preceding > n then
                let month = month - 1;
                    preceding = preceding -
                      (DAYS_IN_MONTH ! nat month + (if month = 2 \<and> leapyear then 1 else 0))
                in (year, month, n - preceding + 1)
              else (year, month, n - preceding + 1))"

record datetime =
  dt_year :: int
  dt_month :: int
  dt_day :: int
  dt_hour :: int
  dt_minute :: int

text \<open>The constructor: \<^verbatim>\<open>ValueError\<close> on a year, month or day out of range.\<close>

definition make_datetime :: "int \<Rightarrow> int \<Rightarrow> int \<Rightarrow> int \<Rightarrow> int \<Rightarrow> py_error + datetime" where
  "make_datetime y m d hh mm =
     (if \<not> (1 \<le> y \<and> y \<le> 9999) then Inl (ValueError ''year is out of range'')
      else if \<not> (1 \<le> m \<and> m \<le> 12) then Inl (ValueError ''month must be in 1..12'')
      else if \<not> (1 \<le> d \<and> d \<le> days_in_month y m) then
        Inl (ValueError ''day is out of range for month'')
      else if \<not> (0 \<le> hh \<and> hh \<le> 23) then Inl (ValueError ''hour must be in 0..23'')
      else if \<not> (0 \<le> mm \<and> mm \<le> 59) then Inl (ValueError ''minute must be in 0..59'')
      else Inr \<lparr>dt_year = y, dt_month = m, dt_day = d, dt_hour = hh, dt_minute = mm\<rparr>)"

text \<open>
  \<^verbatim>\<open>dt + timedelta(days=days)\<close>: \<^verbatim>\<open>timedelta\<close> refuses more than 999999999 days, and
  the sum must stay within the years 1 to 9999; both are an \<^verbatim>\<open>OverflowError\<close>.
\<close>

definition add_days :: "datetime \<Rightarrow> int \<Rightarrow> py_error + datetime" where
  "add_days dt days =
     (if \<bar>days\<bar> > 999999999 then Inl (OverflowError ''days out of range for timedelta'')
      else
        let ordinal = ymd2ord (dt_year dt) (dt_month dt) (dt_day dt) + days
        in if 0 < ordinal \<and> ordinal \<le> MAXORDINAL then
             (case ord2ymd ordinal of
                (y, m, d) \<Rightarrow> Inr (dt\<lparr>dt_year := y, dt_month := m, dt_day := d\<rparr>))
           else Inl (OverflowError ''date value out of range''))"

subsection \<open>\<^verbatim>\<open>strftime\<close>\<close>

fun show_nat :: "nat \<Rightarrow> string" where
  "show_nat n = (if n < 10 then [digit_char n] else show_nat (n div 10) @ [digit_char (n mod 10)])"

declare show_nat.simps [simp del]

definition zfill :: "nat \<Rightarrow> string \<Rightarrow> string" where
  "zfill w s = replicate (w - length s) (CHR ''0'') @ s"

text \<open>
  A numeric directive: \<^verbatim>\<open>%m\<close>, \<^verbatim>\<open>%d\<close>, \<^verbatim>\<open>%H\<close> and \<^verbatim>\<open>%M\<close> are zero-padded to two
  digits. \<^verbatim>\<open>%Y\<close> is the year as the C library of the platform prints it: glibc
  does not pad it, so that the year 999 is \<^verbatim>\<open>999\<close> and only the years from 1000 on
  have four digits.
\<close>

definition directive :: "nat \<Rightarrow> int \<Rightarrow> string" where
  "directive w n = zfill w (show_nat (nat n))"

definition directive_Y :: "int \<Rightarrow> string" where
  "directive_Y year = show_nat (nat year)"

definition strftime_Ymd :: "datetime \<Rightarrow> string" where
  "strftime_Ymd dt =
     directive_Y (dt_year dt) @ ''-'' @ directive 2 (dt_month dt) @ ''-'' @ directive 2 (dt_day dt)"

definition strftime_dmY :: "datetime \<Rightarrow> string" where
  "strftime_dmY dt =
     directive 2 (dt_day dt) @ ''-'' @ directive 2 (dt_month dt) @ ''-'' @ directive_Y (dt_year dt)"

definition strftime_HM :: "datetime \<Rightarrow> string" where
  "strftime_HM dt = directive 2 (dt_hour dt) @ '':'' @ directive 2 (dt_minute dt)"

subsection \<open>\<^verbatim>\<open>strptime\<close>\<close>

text \<open>
  \<^verbatim>\<open>strptime\<close> turns the format into a regular expression, one group per directive,
  and matches it at the start of the string:
  \<^verbatim>\<open>%Y\<close> is \<^verbatim>\<open>\d\d\d\d\<close>, \<^verbatim>\<open>%m\<close> is \<^verbatim>\<open>1[0-2]|0[1-9]|[1-9]\<close>,
  \<^verbatim>\<open>%d\<close> is \<^verbatim>\<open>3[0-1]|[1-2]\d|0[1-9]|[1-9]| [1-9]\<close>, \<^verbatim>\<open>%H\<close> is \<^verbatim>\<open>2[0-3]|[0-1]\d|\d\<close>,
  \<^verbatim>\<open>%M\<close> is \<^verbatim>\<open>[0-5]\d|\d\<close>, white space in the format is \<^verbatim>\<open>\s+\<close>.
  A matcher returns every way to match a prefix, as the matched text and the rest of the
  string, in the order in which the backtracking search of \<^verbatim>\<open>re\<close> tries them; the
  match that \<^verbatim>\<open>re\<close> reports is the first one.
\<close>

type_synonym matcher = "string \<Rightarrow> (string \<times> string) list"

definition cls1 :: "string \<Rightarrow> matcher" where
  "cls1 A s = (case s of c # r \<Rightarrow> if c \<in> set A then [([c], r)] else [] | _ \<Rightarrow> [])"

definition cls2 :: "string \<Rightarrow> string \<Rightarrow> matcher" where
  "cls2 A B s =
     (case s of
        c # d # r \<Rightarrow> if c \<in> set A \<and> d \<in> set B then [([c, d], r)] else []
      | _ \<Rightarrow> [])"

definition re_Y :: matcher where
  "re_Y s =
     (case s of
        a # b # c # d # r \<Rightarrow>
          if py_isdigit a \<and> py_isdigit b \<and> py_isdigit c \<and> py_isdigit d then [([a, b, c, d], r)]
          else []
      | _ \<Rightarrow> [])"

definition re_m :: matcher where
  "re_m s = cls2 ''1'' ''012'' s @ cls2 ''0'' ''123456789'' s @ cls1 ''123456789'' s"

definition re_d :: matcher where
  "re_d s =
     cls2 ''3'' ''01'' s @ cls2 ''12'' ''0123456789'' s @ cls2 ''0'' ''123456789'' s @
     cls1 ''123456789'' s @ cls2 '' '' ''123456789'' s"

definition re_H :: matcher where
  "re_H s = cls2 ''2'' ''0123'' s @ cls2 ''01'' ''0123456789'' s @ cls1 ''0123456789'' s"

definition re_M :: matcher where
  "re_M s = cls2 ''012345'' ''0123456789'' s @ cls1 ''0123456789'' s"

definition re_lit :: "char \<Rightarrow> string \<Rightarrow> string list" where
  "re_lit c s = (case s of x # r \<Rightarrow> if x = c then [r] else [] | _ \<Rightarrow> [])"

text \<open>\<^verbatim>\<open>\s+\<close> is greedy: the longest run of white space first, then shorter ones.\<close>

definition re_spaces :: "string \<Rightarrow> string list" where
  "re_spaces s = map (\<lambda>k. drop k s) (rev [1 ..< Suc (length (takeWhile py_isspace s))])"

text \<open>The regular expressions of the two formats the source uses.\<close>

definition regex_Ymd :: "string \<Rightarrow> ((string \<times> string \<times> string) \<times> string) list" where
  "regex_Ymd s =
     [((Y, m, d), r5).
        (Y, r1) \<leftarrow> re_Y s, r2 \<leftarrow> re_lit (CHR ''-'') r1,
        (m, r3) \<leftarrow> re_m r2, r4 \<leftarrow> re_lit (CHR ''-'') r3,
        (d, r5) \<leftarrow> re_d r4]"

definition regex_Ymd_HM ::
    "string \<Rightarrow> ((string \<times> string \<times> string \<times> string \<times> string) \<times> string) list" where
  "regex_Ymd_HM s =
     [((Y, m, d, H, M), r9).
        ((Y, m, d), r5) \<leftarrow> regex_Ymd s, r6 \<leftarrow> re_spaces r5,
        (H, r7) \<leftarrow> re_H r6, r8 \<leftarrow> re_lit (CHR '':'') r7,
        (M, r9) \<leftarrow> re_M r8]"

text \<open>\<^verbatim>\<open>int(found_dict[...])\<close> on a matched group.\<close>

definition group_int :: "string \<Rightarrow> py_error + int" where
  "group_int g =
     (case py_int g of
        None \<Rightarrow> Inl (int_error g)
      | Some n \<Rightarrow> Inr n)"

text \<open>
  \<^verbatim>\<open>datetime.strptime(s, "%Y-%m-%d")\<close>: no match, text left over after the match, and
  a date that does not exist are each a \<^verbatim>\<open>ValueError\<close>.
\<close>

definition strptime_Ymd :: "string \<Rightarrow> py_error + datetime" where
  "strptime_Ymd s =
     (case regex_Ymd s of
        [] \<Rightarrow> Inl (ValueError ''time data does not match format'')
      | ((Y, m, d), rest) # _ \<Rightarrow>
          if rest \<noteq> [] then Inl (ValueError ''unconverted data remains'')
          else
            bind_result (group_int Y) (\<lambda>year.
            bind_result (group_int m) (\<lambda>month.
            bind_result (group_int d) (\<lambda>day.
              make_datetime year month day 0 0))))"

text \<open>\<^verbatim>\<open>datetime.strptime(s, "%Y-%m-%d %H:%M")\<close>.\<close>

definition strptime_Ymd_HM :: "string \<Rightarrow> py_error + datetime" where
  "strptime_Ymd_HM s =
     (case regex_Ymd_HM s of
        [] \<Rightarrow> Inl (ValueError ''time data does not match format'')
      | ((Y, m, d, H, M), rest) # _ \<Rightarrow>
          if rest \<noteq> [] then Inl (ValueError ''unconverted data remains'')
          else
            bind_result (group_int Y) (\<lambda>year.
            bind_result (group_int m) (\<lambda>month.
            bind_result (group_int d) (\<lambda>day.
            bind_result (group_int H) (\<lambda>hour.
            bind_result (group_int M) (\<lambda>minute.
              make_datetime year month day hour minute))))))"

section \<open>\<^verbatim>\<open>helpers/dictionaries.py\<close>\<close>

text \<open>
  \<^verbatim>\<open>return {key: value for key, value in dictionary.items() if key in keys_to_keep}\<close>
\<close>

definition filter_dictionary :: "json_data \<Rightarrow> string list \<Rightarrow> json_data" where
  "filter_dictionary dictionary keys_to_keep =
     filter (\<lambda>(key, value). key \<in> set keys_to_keep) dictionary"

section \<open>\<^verbatim>\<open>helpers/dates.py\<close>\<close>

text \<open>
  \<open>generate_end_date\<close> with the default \<^verbatim>\<open>date_format="%Y-%m-%d"\<close>, the only one the
  pipeline uses. The start date is parsed first, then \<^verbatim>\<open>int(delta)\<close> is taken.
\<close>

definition generate_end_date :: "string \<Rightarrow> string \<Rightarrow> py_error + string" where
  "generate_end_date start_date delta =
     bind_result (strptime_Ymd start_date) (\<lambda>start.
     bind_result (group_int delta) (\<lambda>days.
     bind_result (add_days start days) (\<lambda>end_date.
       Inr (strftime_Ymd end_date))))"

text \<open>\<open>split_datetime\<close> with the default \<^verbatim>\<open>datetime_format="%Y-%m-%d %H:%M"\<close>.\<close>

definition split_datetime :: "string \<Rightarrow> py_error + string \<times> string" where
  "split_datetime date_time =
     bind_result (strptime_Ymd_HM date_time) (\<lambda>fulldate.
       Inr (strftime_dmY fulldate, strftime_HM fulldate))"

definition event_date_missing :: string where
  "event_date_missing =
     ''event_date column not present in response fields provided. '' @
     ''Check config.json to ensure it was not removed from '' @
     ''SCOREBOARD['fields_of_interest'].''"

text \<open>
  One turn of the loop of \<open>add_date_and_time\<close>. Only the subscript
  \<^verbatim>\<open>response["event_date"]\<close> can raise the \<^verbatim>\<open>KeyError\<close> that the handler replaces;
  a value that is not a string makes \<^verbatim>\<open>strptime\<close> raise \<^verbatim>\<open>TypeError\<close>, and that and
  the \<^verbatim>\<open>ValueError\<close> of a malformed date pass through the handler.
\<close>

definition add_date_and_time_to :: "json_data \<Rightarrow> py_error + json_data" where
  "add_date_and_time_to response =
     (case map_of response ''event_date'' of
        None \<Rightarrow> Inl (KeyError event_date_missing)
      | Some (JStr date_time) \<Rightarrow>
          bind_result (split_datetime date_time) (\<lambda>(event_date, event_time).
            Inr (dict_set (dict_set response ''event_date'' (JStr event_date))
                   ''event_time'' (JStr event_time)))
      | Some _ \<Rightarrow> Inl (TypeError ''strptime() argument 1 must be str''))"

fun add_date_and_time :: "json_data list \<Rightarrow> py_error + json_data list" where
  "add_date_and_time [] = Inr []"
| "add_date_and_time (response # response_data) =
     bind_result (add_date_and_time_to response) (\<lambda>response'.
     bind_result (add_date_and_time response_data) (\<lambda>response_data'.
       Inr (response' # response_data')))"

section \<open>\<^verbatim>\<open>helpers/command_line.py\<close>\<close>







section \<open>\<^verbatim>\<open>core.py\<close>\<close>

subsection \<open>Scoreboard extraction\<close>

text \<open>\<^verbatim>\<open>x[key]\<close> with a string key on a value that is true: only a dictionary has it.\<close>

definition subscript :: "json \<Rightarrow> string \<Rightarrow> py_error + json" where
  "subscript x key =
     (case x of
        JObj d \<Rightarrow> dict_get d key
      | _ \<Rightarrow> Inl (TypeError ''indices must be integers''))"

text \<open>\<^verbatim>\<open>x.items()\<close>: only a dictionary has the method.\<close>

definition items :: "json \<Rightarrow> py_error + json_data" where
  "items x = (case x of JObj d \<Rightarrow> Inr d | _ \<Rightarrow> Inl (AttributeError ''items''))"

text \<open>
  The inner loop of \<open>_extract_scoreboard_fields_of_interest\<close>, over the games of one
  day; \<open>filtered_scoreboard_data\<close> is the list being appended to.
\<close>

fun extract_events ::
    "string list \<Rightarrow> json_data \<Rightarrow> json_data list \<Rightarrow> py_error + json_data list" where
  "extract_events fields_of_interest [] filtered_scoreboard_data = Inr filtered_scoreboard_data"
| "extract_events fields_of_interest ((event_id, event_data) # rest) filtered_scoreboard_data =
     bind_result (items event_data) (\<lambda>event_fields.
       let filtered_event_data = filter_dictionary event_fields fields_of_interest;
           filtered_event_data = dict_set filtered_event_data ''event_id'' (JStr event_id)
       in extract_events fields_of_interest rest
            (filtered_scoreboard_data @ [filtered_event_data]))"

text \<open>The outer loop, over the entries of the \<^verbatim>\<open>results\<close> dictionary.\<close>

fun extract_entries ::
    "string list \<Rightarrow> json_data \<Rightarrow> json_data list \<Rightarrow> py_error + json_data list" where
  "extract_entries fields_of_interest [] filtered_scoreboard_data = Inr filtered_scoreboard_data"
| "extract_entries fields_of_interest ((entry, event_results) # rest) filtered_scoreboard_data =
     (if py_truthy event_results then
        bind_result (subscript event_results ''data'') (\<lambda>data.
        bind_result (items data) (\<lambda>games.
        bind_result (extract_events fields_of_interest games filtered_scoreboard_data)
          (extract_entries fields_of_interest rest)))
      else extract_entries fields_of_interest rest filtered_scoreboard_data)"

text \<open>
  \<open>_extract_scoreboard_fields_of_interest\<close>; the first argument is
  \<^verbatim>\<open>SCOREBOARD["fields_of_interest"]\<close>, which the source reads from \<^verbatim>\<open>config.json\<close>.
\<close>

definition extract_scoreboard_fields_of_interest ::
    "string list \<Rightarrow> json_data \<Rightarrow> py_error + json_data list" where
  "extract_scoreboard_fields_of_interest fields_of_interest complete_scoreboard_data =
     extract_entries fields_of_interest complete_scoreboard_data []"

subsection \<open>\<open>pull_json_data\<close>\<close>

definition correct_date_msg :: string where
  "correct_date_msg = ''Please pass a correct starting date, such as 2000-12-20.''"

definition time_delta_msg :: string where
  "time_delta_msg = ''Must pass a time delta between 0 and 7 days (inclusive).''"

definition no_scoreboard_data_msg :: string where
  "no_scoreboard_data_msg =
     ''No scoreboard data was returned for the specified '' @
     ''starting date and delta provided. Either no data exists, '' @
     ''or a date out of range was entered by mistake. Please check '' @
     ''that the starting date provided is correct.''"

text \<open>
  The two fetches are parameters: \<open>pull_scoreboard_data start_date delta\<close> and
  \<open>pull_team_rankings\<close> are what the calls \<^verbatim>\<open>_pull_scoreboard_data(start_date, delta)\<close>
  and \<^verbatim>\<open>_pull_team_rankings()\<close> do, a returned value or a raised exception. The second
  call is made only when the first has returned.

  \<open>try_body\<close> is the \<^verbatim>\<open>try\<close> suite: the value of \<open>scoreboard_data\<close> when the suite is
  left, and how it is left. \<open>handlers\<close> are the two \<^verbatim>\<open>except\<close> clauses. The
  \<^verbatim>\<open>finally\<close> clause runs last, whatever is pending, and its own \<^verbatim>\<open>raise\<close> replaces
  the pending exception.
\<close>

definition try_body ::
    "(string \<Rightarrow> string \<Rightarrow> py_error + json) \<Rightarrow> (py_error + json) \<Rightarrow> string \<Rightarrow> string \<Rightarrow>
       json \<times> (py_error + json)" where
  "try_body pull_scoreboard_data pull_team_rankings start_date delta =
     (case pull_scoreboard_data start_date delta of
        Inl e \<Rightarrow> (JNull, Inl e)
      | Inr scoreboard_data \<Rightarrow> (scoreboard_data, pull_team_rankings))"

definition handlers :: "py_error + json \<Rightarrow> py_error + json" where
  "handlers pending =
     (case pending of
        Inl (ValueError ve) \<Rightarrow> Inl (ValueError (ve @ ''. '' @ correct_date_msg))
      | Inl (TypeError _) \<Rightarrow> Inl (ValueError time_delta_msg)
      | _ \<Rightarrow> pending)"

definition pull_json_data ::
    "(string \<Rightarrow> string \<Rightarrow> py_error + json) \<Rightarrow> (py_error + json) \<Rightarrow> string \<Rightarrow> string \<Rightarrow>
       py_error + json \<times> json" where
  "pull_json_data pull_scoreboard_data pull_team_rankings start_date delta =
     (case try_body pull_scoreboard_data pull_team_rankings start_date delta of
        (scoreboard_data, pending) \<Rightarrow>
          if \<not> py_truthy scoreboard_data then Inl (ValueError no_scoreboard_data_msg)
          else
            bind_result (handlers pending) (\<lambda>team_ranking_data.
              Inr (scoreboard_data, team_ranking_data)))"

subsection \<open>\<open>transform_json_data\<close>\<close>

definition desired_key_order :: "string list" where
  "desired_key_order =
     [''event_id'', ''event_date'', ''event_time'',
      ''away_team_id'', ''away_nick_name'', ''away_city'', ''away_rank'', ''away_rank_points'',
      ''home_team_id'', ''home_nick_name'', ''home_city'', ''home_rank'', ''home_rank_points'']"

text \<open>
  The four local variables that the join assigns inside the inner loop and reads after
  it. They are local to the function, not to a turn of the loop: \<open>None\<close> is a variable
  that no assignment has reached yet.
\<close>

record rank_vars =
  away_team_rank :: "json option"
  away_team_points :: "json option"
  home_team_rank :: "json option"
  home_team_points :: "json option"

definition unset :: rank_vars where
  "unset = \<lparr>away_team_rank = None, away_team_points = None,
            home_team_rank = None, home_team_points = None\<rparr>"

text \<open>Reading a local variable: \<^verbatim>\<open>UnboundLocalError\<close> when it has no value.\<close>

definition read_var :: "string \<Rightarrow> json option \<Rightarrow> py_error + json" where
  "read_var name var = (case var of None \<Rightarrow> Inl (UnboundLocalError name) | Some v \<Rightarrow> Inr v)"

text \<open>
  \<^verbatim>\<open>for team in team_rankings\<close>: the \<^verbatim>\<open>if\<close> tests the away team, and only when that
  test fails does the \<^verbatim>\<open>elif\<close> test the home team.
\<close>

fun match_rankings :: "json \<Rightarrow> json \<Rightarrow> json_data list \<Rightarrow> rank_vars \<Rightarrow> py_error + rank_vars" where
  "match_rankings away_team_id home_team_id [] vars = Inr vars"
| "match_rankings away_team_id home_team_id (team # team_rankings) vars =
     bind_result (dict_get team ''team_id'') (\<lambda>team_id.
       if py_eq away_team_id team_id then
         bind_result (dict_get team ''rank'') (\<lambda>rank.
         bind_result (dict_get team ''adjusted_points'') (\<lambda>adjusted_points.
           match_rankings away_team_id home_team_id team_rankings
             (vars\<lparr>away_team_rank := Some rank, away_team_points := Some adjusted_points\<rparr>)))
       else if py_eq home_team_id team_id then
         bind_result (dict_get team ''rank'') (\<lambda>rank.
         bind_result (dict_get team ''adjusted_points'') (\<lambda>adjusted_points.
           match_rankings away_team_id home_team_id team_rankings
             (vars\<lparr>home_team_rank := Some rank, home_team_points := Some adjusted_points\<rparr>)))
       else match_rankings away_team_id home_team_id team_rankings vars)"

text \<open>
  \<^verbatim>\<open>{key: event[key] for key in desired_key_order}\<close>; \<open>ordered_output\<close> is the
  dictionary under construction.
\<close>

fun reorder :: "string list \<Rightarrow> json_data \<Rightarrow> json_data \<Rightarrow> py_error + json_data" where
  "reorder [] event ordered_output = Inr ordered_output"
| "reorder (key # keys) event ordered_output =
     bind_result (dict_get event key) (\<lambda>v.
       reorder keys event (dict_set ordered_output key v))"

text \<open>
  The body of \<^verbatim>\<open>for event in scoreboard_data\<close>: the variables as the previous turn
  left them go in, the variables as this turn leaves them and the record it appends
  come out.
\<close>

definition join_event ::
    "json_data list \<Rightarrow> rank_vars \<Rightarrow> json_data \<Rightarrow> py_error + rank_vars \<times> json_data" where
  "join_event team_rankings vars event =
     bind_result (dict_get event ''away_team_id'') (\<lambda>away_team_id.
     bind_result (dict_get event ''home_team_id'') (\<lambda>home_team_id.
     bind_result (match_rankings away_team_id home_team_id team_rankings vars) (\<lambda>vars.
     bind_result (read_var ''away_team_rank'' (away_team_rank vars)) (\<lambda>away_rank.
     bind_result (read_var ''away_team_points'' (away_team_points vars)) (\<lambda>away_rank_points.
       let event = dict_set event ''away_rank'' away_rank;
           event = dict_set event ''away_rank_points'' away_rank_points
       in
     bind_result (read_var ''home_team_rank'' (home_team_rank vars)) (\<lambda>home_rank.
     bind_result (read_var ''home_team_points'' (home_team_points vars)) (\<lambda>home_rank_points.
       let event = dict_set event ''home_rank'' home_rank;
           event = dict_set event ''home_rank_points'' home_rank_points
       in
     bind_result (reorder desired_key_order event []) (\<lambda>ordered_output.
       Inr (vars, ordered_output)))))))))"

fun join_events ::
    "json_data list \<Rightarrow> rank_vars \<Rightarrow> json_data list \<Rightarrow> json_data list \<Rightarrow>
       py_error + json_data list" where
  "join_events team_rankings vars [] transformed_result_list = Inr transformed_result_list"
| "join_events team_rankings vars (event # scoreboard_data) transformed_result_list =
     bind_result (join_event team_rankings vars event) (\<lambda>(vars, ordered_output).
       join_events team_rankings vars scoreboard_data
         (transformed_result_list @ [ordered_output]))"

text \<open>
  The records of \<open>scoreboard_data\<close> are separate objects (the extraction builds each
  one anew), so updating one in place does not touch another.
\<close>

definition transform_json_data :: "json_data list \<Rightarrow> json_data list \<Rightarrow> py_error + json_data list" where
  "transform_json_data scoreboard_data team_rankings =
     bind_result (add_date_and_time scoreboard_data) (\<lambda>scoreboard_data.
       join_events team_rankings unset scoreboard_data [])"

section \<open>Notions used to state the properties\<close>

subsection \<open>The scoreboard payload\<close>

text \<open>
  What the specification calls a date bucket is the value of one entry of the
  \<^verbatim>\<open>results\<close> dictionary; its games are the entries of its \<^verbatim>\<open>data\<close> dictionary.
  \<open>event_record\<close> is the record the specification asks for one game: the filtered
  fields with the identifier of the entry attached as \<^verbatim>\<open>event_id\<close>. \<open>day_records\<close>
  are the records one bucket contributes, none when the bucket is empty.
  \<open>day_well_formed\<close> says that a bucket that is not empty has the shape the endpoint
  documents.
\<close>

definition is_object :: "json \<Rightarrow> bool" where
  "is_object x = (case x of JObj d \<Rightarrow> True | _ \<Rightarrow> False)"

definition fields_of :: "json \<Rightarrow> json_data" where
  "fields_of x = (case x of JObj d \<Rightarrow> d | _ \<Rightarrow> [])"

definition games_of :: "json \<Rightarrow> json_data" where
  "games_of bucket = fields_of (case map_of (fields_of bucket) ''data'' of Some g \<Rightarrow> g | None \<Rightarrow> JNull)"

definition event_record :: "string list \<Rightarrow> string \<times> json \<Rightarrow> json_data" where
  "event_record fields_of_interest game =
     dict_set (filter_dictionary (fields_of (snd game)) fields_of_interest)
       ''event_id'' (JStr (fst game))"

definition day_records :: "string list \<Rightarrow> json \<Rightarrow> json_data list" where
  "day_records fields_of_interest bucket =
     (if py_truthy bucket then map (event_record fields_of_interest) (games_of bucket) else [])"

definition day_well_formed :: "json \<Rightarrow> bool" where
  "day_well_formed bucket =
     (if py_truthy bucket then
        is_object bucket \<and>
        (case map_of (fields_of bucket) ''data'' of
           Some g \<Rightarrow> is_object g \<and> list_all (\<lambda>game. is_object (snd game)) (fields_of g)
         | None \<Rightarrow> False)
      else True)"

subsection \<open>The join\<close>

text \<open>
  \<open>matches team_id team\<close>: the ranking record \<open>team\<close> has a \<^verbatim>\<open>team_id\<close> equal to
  \<open>team_id\<close>. \<open>ranking_for\<close> is the ranking record matching a team id: the last one,
  should several match. \<open>unmatched key team_rankings event\<close>: the team id that \<open>event\<close>
  holds under \<open>key\<close> matches no ranking record. \<open>complete_ranking\<close>: a ranking record
  has the three fields the join reads.
\<close>

definition matches :: "json \<Rightarrow> json_data \<Rightarrow> bool" where
  "matches team_id team =
     (case map_of team ''team_id'' of Some tid \<Rightarrow> py_eq team_id tid | None \<Rightarrow> False)"




subsection \<open>Events that the transform can process\<close>

text \<open>
  \<open>date_parses\<close>: the record holds a date-time string that \<open>split_datetime\<close> accepts.
  \<open>event_ok\<close>: it holds, besides, the seven other fields that the scoreboard
  extraction delivers and the transform copies. \<open>assigns_both\<close>: the scan of the
  rankings for the event reaches both assignments, that is, some ranking record matches
  the away team id, and some ranking record matches the home team id and not the away
  team id. \<open>all_set\<close>: the four variables have values.
\<close>

definition date_parses :: "json_data \<Rightarrow> bool" where
  "date_parses response =
     (case map_of response ''event_date'' of
        Some (JStr date_time) \<Rightarrow>
          (case split_datetime date_time of Inr _ \<Rightarrow> True | Inl _ \<Rightarrow> False)
      | _ \<Rightarrow> False)"





subsection \<open>Date and time strings\<close>

text \<open>
  \<open>padded_field w cs\<close>: the field \<open>cs\<close> is written with exactly \<open>w\<close> decimal digits;
  \<open>dec_val\<close> is the number it denotes. \<open>valid_date\<close>: a day that exists, in the
  years 1 to 9999 of the calendar.
\<close>

definition dec_val :: "string \<Rightarrow> int" where
  "dec_val cs = foldl (\<lambda>a c. 10 * a + digit_val c) 0 cs"

definition padded_field :: "nat \<Rightarrow> string \<Rightarrow> bool" where
  "padded_field w cs = (length cs = w \<and> list_all py_isdigit cs)"


definition valid_date :: "int \<Rightarrow> int \<Rightarrow> int \<Rightarrow> bool" where
  "valid_date y m d =
     (1 \<le> y \<and> y \<le> 9999 \<and> 1 \<le> m \<and> m \<le> 12 \<and> 1 \<le> d \<and> d \<le> days_in_month y m)"


subsection \<open>Example data\<close>

text \<open>
  An event record as the extraction delivers it, a ranking record, and the record the
  transform returns for an event played on 2020-01-12 at 18:30.
\<close>

definition game_record :: "string \<Rightarrow> string \<Rightarrow> string \<Rightarrow> json_data" where
  "game_record event_id away home =
     [(''event_id'', JStr event_id), (''event_date'', JStr ''2020-01-12 18:30''),
      (''away_team_id'', JStr away), (''away_nick_name'', JStr ''Away''),
      (''away_city'', JStr ''Away City''), (''home_team_id'', JStr home),
      (''home_nick_name'', JStr ''Home''), (''home_city'', JStr ''Home City'')]"

definition ranking_record :: "string \<Rightarrow> int \<Rightarrow> int \<Rightarrow> json_data" where
  "ranking_record team_id rank adjusted_points =
     [(''team_id'', JStr team_id), (''rank'', JInt rank), (''adjusted_points'', JInt adjusted_points)]"


section \<open>Basic facts\<close>

lemma bind_result_Inl [simp]: "bind_result (Inl e) f = Inl e"
  by (simp add: bind_result_def)

lemma bind_result_Inr [simp]: "bind_result (Inr x) f = f x"
  by (simp add: bind_result_def)

lemma bind_result_eq_Inr: "bind_result m f = Inr y \<longleftrightarrow> (\<exists>x. m = Inr x \<and> f x = Inr y)"
  by (cases m) simp_all

lemma map_of_dict_set: "map_of (dict_set d k v) k' = (if k' = k then Some v else map_of d k')"
  by (induction d) auto

lemma dict_set_fresh: "k \<notin> fst ` set d \<Longrightarrow> dict_set d k v = d @ [(k, v)]"
  by (induction d) auto

lemma keys_dict_set_fresh: "k \<notin> set (map fst d) \<Longrightarrow> map fst (dict_set d k v) = map fst d @ [k]"
  by (simp add: dict_set_fresh)

section \<open>The field filter\<close>

lemma map_of_filter_dictionary:
  "map_of (filter_dictionary d ks) k = (if k \<in> set ks then map_of d k else None)"
  unfolding filter_dictionary_def by (induction d) auto

text \<open>
  C7. \<open>filter_dictionary\<close> is a total function: it returns a dictionary for every
  dictionary and every allow-list, whether or not the keys of the list occur. The
  result holds exactly the entries of the input whose key is in the allow-list, each
  with the value it had; looking a key up in the result gives the value of the input
  when the key is allowed and nothing otherwise; an allowed key that the input does not
  have is not in the result either.
\<close>

theorem filter_dictionary_keeps_allowed:
  "map_of (filter_dictionary dictionary keys_to_keep) key =
     (if key \<in> set keys_to_keep then map_of dictionary key else None)
   \<and> set (filter_dictionary dictionary keys_to_keep) =
       {(k, v). (k, v) \<in> set dictionary \<and> k \<in> set keys_to_keep}
   \<and> (key \<in> set keys_to_keep \<and> key \<notin> fst ` set dictionary
        \<longrightarrow> key \<notin> fst ` set (filter_dictionary dictionary keys_to_keep))"
proof -
  have "set (filter_dictionary dictionary keys_to_keep) =
       {(k, v). (k, v) \<in> set dictionary \<and> k \<in> set keys_to_keep}"
    unfolding filter_dictionary_def by auto
  moreover have "key \<notin> fst ` set dictionary
      \<Longrightarrow> key \<notin> fst ` set (filter_dictionary dictionary keys_to_keep)"
    unfolding filter_dictionary_def by auto
  ultimately show ?thesis
    using map_of_filter_dictionary by blast
qed

theorem filter_dictionary_keeps_allowed_witness:
  "filter_dictionary [(''a'', JInt 1), (''b'', JInt 2), (''c'', JInt 3)] [''a'', ''c'', ''z'']
     = [(''a'', JInt 1), (''c'', JInt 3)]
   \<and> map_of (filter_dictionary [(''a'', JInt 1), (''b'', JInt 2), (''c'', JInt 3)]
        [''a'', ''c'', ''z'']) ''z'' = None"
  using filter_dictionary_keeps_allowed
    [of "[(''a'', JInt 1), (''b'', JInt 2), (''c'', JInt 3)]" "[''a'', ''c'', ''z'']" "''z''"]
  by (simp add: filter_dictionary_def)

section \<open>The canonical record shape\<close>

lemma reorder_keys:
  "distinct (map fst acc @ keys) \<Longrightarrow> reorder keys event acc = Inr out
     \<Longrightarrow> map fst out = map fst acc @ keys"
proof (induction keys arbitrary: acc)
  case Nil
  then show ?case by simp
next
  case (Cons key keys)
  from Cons.prems(2) obtain v where
    r: "reorder keys event (dict_set acc key v) = Inr out"
    by (auto simp: bind_result_eq_Inr)
  from Cons.prems(1) have fresh: "key \<notin> set (map fst acc)" by auto
  have "distinct (map fst (dict_set acc key v) @ keys)"
    using Cons.prems(1) by (simp add: keys_dict_set_fresh[OF fresh])
  from Cons.IH[OF this r] show ?case
    by (simp add: keys_dict_set_fresh[OF fresh])
qed

lemma distinct_desired_key_order: "distinct desired_key_order"
  by (simp add: desired_key_order_def)

lemma join_event_keys:
  assumes "join_event team_rankings vars event = Inr (vars', out)"
  shows "map fst out = desired_key_order"
proof -
  from assms obtain ev where "reorder desired_key_order ev [] = Inr out"
    unfolding join_event_def by (auto simp: bind_result_eq_Inr Let_def)
  from reorder_keys[OF _ this] show ?thesis
    using distinct_desired_key_order by simp
qed

lemma join_events_keys:
  "join_events team_rankings vars events acc = Inr out
    \<Longrightarrow> \<forall>r \<in> set acc. map fst r = desired_key_order
    \<Longrightarrow> \<forall>r \<in> set out. map fst r = desired_key_order"
proof (induction events arbitrary: vars acc)
  case Nil
  then show ?case by simp
next
  case (Cons event events)
  from Cons.prems(1) obtain vars' o' where
    je: "join_event team_rankings vars event = Inr (vars', o')" and
    rest: "join_events team_rankings vars' events (acc @ [o']) = Inr out"
    by (auto simp: bind_result_eq_Inr)
  have "\<forall>r \<in> set (acc @ [o']). map fst r = desired_key_order"
    using Cons.prems(2) join_event_keys[OF je] by auto
  from Cons.IH[OF rest this] show ?case .
qed

text \<open>
  C1. Whenever \<open>transform_json_data\<close> returns, every record of the sequence it returns
  has exactly the thirteen canonical keys, in the canonical order.
\<close>

theorem transform_canonical_keys:
  assumes "transform_json_data scoreboard_data team_rankings = Inr out"
  shows "\<forall>r \<in> set out. map fst r =
     [''event_id'', ''event_date'', ''event_time'',
      ''away_team_id'', ''away_nick_name'', ''away_city'', ''away_rank'', ''away_rank_points'',
      ''home_team_id'', ''home_nick_name'', ''home_city'', ''home_rank'', ''home_rank_points'']"
proof -
  from assms obtain sd where
    "join_events team_rankings unset sd [] = Inr out"
    unfolding transform_json_data_def by (auto simp: bind_result_eq_Inr)
  from join_events_keys[OF this] show ?thesis
    by (simp add: desired_key_order_def)
qed

theorem transform_canonical_keys_witness:
  "transform_json_data
     [[(''event_id'', JStr ''e1''), (''event_date'', JStr ''2020-01-12 18:30''),
       (''away_team_id'', JStr ''T1''), (''away_nick_name'', JStr ''A''),
       (''away_city'', JStr ''AC''), (''home_team_id'', JStr ''T2''),
       (''home_nick_name'', JStr ''H''), (''home_city'', JStr ''HC'')]]
     [[(''team_id'', JStr ''T1''), (''rank'', JInt 5), (''adjusted_points'', JInt 10)],
      [(''team_id'', JStr ''T2''), (''rank'', JInt 2), (''adjusted_points'', JInt 20)]]
   = Inr [[(''event_id'', JStr ''e1''), (''event_date'', JStr ''12-01-2020''),
           (''event_time'', JStr ''18:30''), (''away_team_id'', JStr ''T1''),
           (''away_nick_name'', JStr ''A''), (''away_city'', JStr ''AC''),
           (''away_rank'', JInt 5), (''away_rank_points'', JInt 10),
           (''home_team_id'', JStr ''T2''), (''home_nick_name'', JStr ''H''),
           (''home_city'', JStr ''HC''), (''home_rank'', JInt 2),
           (''home_rank_points'', JInt 20)]]
   \<and> list_all
        (\<lambda>r. map fst r =
          [''event_id'', ''event_date'', ''event_time'',
           ''away_team_id'', ''away_nick_name'', ''away_city'', ''away_rank'',
           ''away_rank_points'', ''home_team_id'', ''home_nick_name'', ''home_city'',
           ''home_rank'', ''home_rank_points''])
        [[(''event_id'', JStr ''e1''), (''event_date'', JStr ''12-01-2020''),
           (''event_time'', JStr ''18:30''), (''away_team_id'', JStr ''T1''),
           (''away_nick_name'', JStr ''A''), (''away_city'', JStr ''AC''),
           (''away_rank'', JInt 5), (''away_rank_points'', JInt 10),
           (''home_team_id'', JStr ''T2''), (''home_nick_name'', JStr ''H''),
           (''home_city'', JStr ''HC''), (''home_rank'', JInt 2),
           (''home_rank_points'', JInt 20)]]"
proof -
  have run: "transform_json_data
     [[(''event_id'', JStr ''e1''), (''event_date'', JStr ''2020-01-12 18:30''),
       (''away_team_id'', JStr ''T1''), (''away_nick_name'', JStr ''A''),
       (''away_city'', JStr ''AC''), (''home_team_id'', JStr ''T2''),
       (''home_nick_name'', JStr ''H''), (''home_city'', JStr ''HC'')]]
     [[(''team_id'', JStr ''T1''), (''rank'', JInt 5), (''adjusted_points'', JInt 10)],
      [(''team_id'', JStr ''T2''), (''rank'', JInt 2), (''adjusted_points'', JInt 20)]]
   = Inr [[(''event_id'', JStr ''e1''), (''event_date'', JStr ''12-01-2020''),
           (''event_time'', JStr ''18:30''), (''away_team_id'', JStr ''T1''),
           (''away_nick_name'', JStr ''A''), (''away_city'', JStr ''AC''),
           (''away_rank'', JInt 5), (''away_rank_points'', JInt 10),
           (''home_team_id'', JStr ''T2''), (''home_nick_name'', JStr ''H''),
           (''home_city'', JStr ''HC''), (''home_rank'', JInt 2),
           (''home_rank_points'', JInt 20)]]"
    by code_simp
  from transform_canonical_keys[OF run] run show ?thesis
    unfolding list_all_iff by blast
qed

section \<open>The fetch and its \<^verbatim>\<open>finally\<close> clause\<close>

text \<open>
  C4. Whenever the scoreboard fetch leaves \<open>scoreboard_data\<close> false, because the call
  raised (whatever it raised: \<open>scoreboard_data\<close> is still \<^verbatim>\<open>None\<close> then) or because it
  returned \<^verbatim>\<open>None\<close> or an empty sequence, \<open>pull_json_data\<close> raises the \<^verbatim>\<open>ValueError\<close>
  of the \<^verbatim>\<open>finally\<close> clause, with the message that starts "No scoreboard data was
  returned". This holds whatever the rankings fetch does and whatever exception was
  pending: the error of the \<^verbatim>\<open>finally\<close> clause takes its place.
\<close>

theorem pull_json_data_no_scoreboard_data:
  assumes "case pull_scoreboard_data start_date delta of
             Inl e \<Rightarrow> True
           | Inr scoreboard_data \<Rightarrow> \<not> py_truthy scoreboard_data"
  shows "pull_json_data pull_scoreboard_data pull_team_rankings start_date delta =
           Inl (ValueError no_scoreboard_data_msg)"
  using assms
  by (cases "pull_scoreboard_data start_date delta")
     (simp_all add: pull_json_data_def try_body_def)

theorem pull_json_data_no_scoreboard_data_witness:
  "pull_json_data (\<lambda>start_date delta. Inl (TypeError ''int() argument'')) (Inr (JArr []))
      ''2020-01-12'' ''7'' = Inl (ValueError no_scoreboard_data_msg)
   \<and> pull_json_data (\<lambda>start_date delta. Inl (ValueError ''time data does not match format''))
      (Inr (JArr [])) ''20200112'' ''7'' = Inl (ValueError no_scoreboard_data_msg)
   \<and> pull_json_data (\<lambda>start_date delta. Inr (JArr [])) (Inl (SystemExit ''503''))
      ''2020-01-12'' ''7'' = Inl (ValueError no_scoreboard_data_msg)"
  using pull_json_data_no_scoreboard_data
          [of "\<lambda>start_date delta. Inl (TypeError ''int() argument'')" "''2020-01-12''" "''7''"
              "Inr (JArr [])"]
        pull_json_data_no_scoreboard_data
          [of "\<lambda>start_date delta. Inl (ValueError ''time data does not match format'')"
              "''20200112''" "''7''" "Inr (JArr [])"]
        pull_json_data_no_scoreboard_data
          [of "\<lambda>start_date delta. Inr (JArr [])" "''2020-01-12''" "''7''"
              "Inl (SystemExit ''503'')"]
  by simp

text \<open>The model is not degenerate: a fetch that returns data is passed on.\<close>

lemma pull_json_data_returns:
  "pull_scoreboard_data start_date delta = Inr scoreboard_data \<Longrightarrow> py_truthy scoreboard_data
    \<Longrightarrow> pull_json_data pull_scoreboard_data (Inr team_ranking_data) start_date delta =
          Inr (scoreboard_data, team_ranking_data)"
  by (simp add: pull_json_data_def try_body_def handlers_def)

section \<open>Command-line validation\<close>




text \<open>
  The delta arguments of the claim, and the separators that \<^verbatim>\<open>str.isspace\<close> takes for
  white space and \<^verbatim>\<open>int\<close> does not.
\<close>

lemma py_int_examples:
  "py_int ''abc'' = None \<and> py_int ''3.5'' = None \<and> py_int '' 7 '' = Some 7
   \<and> py_int ''-1'' = Some (- 1) \<and> py_int ''1_0'' = Some 10 \<and> py_int ''1__0'' = None
   \<and> py_int [char_of (28 :: nat), CHR ''5''] = None
   \<and> py_int [char_of (160 :: nat), CHR ''5''] = Some 5"
  by code_simp

section \<open>Scoreboard extraction\<close>

lemma extract_events_eq:
  "extract_events fs games acc = Inr out \<longleftrightarrow>
     list_all (\<lambda>game. is_object (snd game)) games \<and> out = acc @ map (event_record fs) games"
proof (induction games arbitrary: acc)
  case Nil
  then show ?case by auto
next
  case (Cons game games)
  obtain event_id event_data where g: "game = (event_id, event_data)" by (cases game)
  show ?case
  proof (cases event_data)
    case (JObj d)
    then show ?thesis
      using Cons.IH[of "acc @ [event_record fs game]"] g
      by (simp add: items_def is_object_def event_record_def fields_of_def)
  qed (simp_all add: g items_def is_object_def)
qed

lemma extract_entries_eq:
  "extract_entries fs payload acc = Inr out \<longleftrightarrow>
     list_all (\<lambda>entry. day_well_formed (snd entry)) payload \<and>
     out = acc @ concat (map (\<lambda>entry. day_records fs (snd entry)) payload)"
proof (induction payload arbitrary: acc)
  case Nil
  then show ?case by auto
next
  case (Cons entry payload)
  obtain date bucket where e: "entry = (date, bucket)" by (cases entry)
  show ?case
  proof (cases "py_truthy bucket")
    case False
    then show ?thesis
      using Cons.IH[of acc] e by (simp add: day_well_formed_def day_records_def)
  next
    case True
    show ?thesis
    proof (cases "subscript bucket ''data''")
      case (Inl err)
      then have "\<not> day_well_formed bucket"
        using True
        by (cases bucket)
           (auto simp: subscript_def day_well_formed_def is_object_def fields_of_def dict_get_def
                 split: option.splits)
      then show ?thesis using True Inl e by simp
    next
      case (Inr data)
      then obtain d where b: "bucket = JObj d" and d: "map_of d ''data'' = Some data"
        by (cases bucket) (auto simp: subscript_def dict_get_def split: option.splits)
      show ?thesis
      proof (cases data)
        case (JObj games)
        have wf: "day_well_formed bucket \<longleftrightarrow> list_all (\<lambda>game. is_object (snd game)) games"
          using True b d JObj by (simp add: day_well_formed_def is_object_def fields_of_def)
        have recs: "day_records fs bucket = map (event_record fs) games"
          using True b d JObj by (simp add: day_records_def games_of_def fields_of_def)
        show ?thesis
        proof (cases "extract_events fs games acc")
          case (Inl err)
          then have "\<not> list_all (\<lambda>game. is_object (snd game)) games"
            using extract_events_eq[of fs games acc] by auto
          then show ?thesis
            using True Inr JObj Inl e wf by (simp add: items_def)
        next
          case (Inr acc')
          then have ok: "list_all (\<lambda>game. is_object (snd game)) games"
            and acc': "acc' = acc @ map (event_record fs) games"
            using extract_events_eq[of fs games acc acc'] by auto
          show ?thesis
            using True \<open>subscript bucket ''data'' = Inr data\<close> JObj Inr e wf ok recs
              Cons.IH[of acc'] acc'
            by (simp add: items_def)
        qed
      next
      qed (use True Inr e b d in
            \<open>simp_all add: items_def day_well_formed_def is_object_def fields_of_def\<close>)
    qed
  qed
qed

lemma map_of_event_record:
  "map_of (event_record fs game) k =
     (if k = ''event_id'' then Some (JStr (fst game))
      else if k \<in> set fs then map_of (fields_of (snd game)) k else None)"
  by (simp add: event_record_def map_of_dict_set map_of_filter_dictionary)

lemma day_records_empty: "\<not> py_truthy bucket \<Longrightarrow> day_records fs bucket = []"
  by (simp add: day_records_def)

lemma day_records_games:
  "py_truthy bucket \<Longrightarrow> day_records fs bucket = map (event_record fs) (games_of bucket)"
  by (simp add: day_records_def)

text \<open>
  C8. The extraction returns exactly when every bucket that is not empty is well formed,
  and what it returns is then the records of the buckets, one bucket after the other.
  A bucket that is empty (false: \<^verbatim>\<open>[]\<close>, \<^verbatim>\<open>{}\<close>, \<^verbatim>\<open>None\<close>) contributes no record. A
  bucket that is not empty contributes one record per game, in the order of the games;
  the record of a game has the identifier of the game under \<^verbatim>\<open>event_id\<close> and, under
  every other key, the value of the game's field when the key is in the allow-list and
  nothing otherwise.
\<close>

theorem extract_scoreboard_skips_empty_days:
  "(extract_scoreboard_fields_of_interest fields_of_interest complete_scoreboard_data = Inr out
      \<longleftrightarrow> list_all (\<lambda>entry. day_well_formed (snd entry)) complete_scoreboard_data \<and>
          out = concat (map (\<lambda>entry. day_records fields_of_interest (snd entry))
                  complete_scoreboard_data))
   \<and> (\<not> py_truthy bucket \<longrightarrow> day_records fields_of_interest bucket = [])
   \<and> (py_truthy bucket \<longrightarrow>
        length (day_records fields_of_interest bucket) = length (games_of bucket) \<and>
        (\<forall>i<length (games_of bucket). \<forall>k.
           map_of (day_records fields_of_interest bucket ! i) k =
             (if k = ''event_id'' then Some (JStr (fst (games_of bucket ! i)))
              else if k \<in> set fields_of_interest
                then map_of (fields_of (snd (games_of bucket ! i))) k
              else None)))"
proof (intro conjI impI)
  show "extract_scoreboard_fields_of_interest fields_of_interest complete_scoreboard_data = Inr out
      \<longleftrightarrow> list_all (\<lambda>entry. day_well_formed (snd entry)) complete_scoreboard_data \<and>
          out = concat (map (\<lambda>entry. day_records fields_of_interest (snd entry))
                  complete_scoreboard_data)"
    unfolding extract_scoreboard_fields_of_interest_def
    using extract_entries_eq[of fields_of_interest complete_scoreboard_data "[]" out]
    by simp
next
  assume "\<not> py_truthy bucket"
  then show "day_records fields_of_interest bucket = []" by (rule day_records_empty)
next
  assume t: "py_truthy bucket"
  show "length (day_records fields_of_interest bucket) = length (games_of bucket)"
    by (simp add: day_records_games[OF t])
  show "\<forall>i<length (games_of bucket). \<forall>k.
           map_of (day_records fields_of_interest bucket ! i) k =
             (if k = ''event_id'' then Some (JStr (fst (games_of bucket ! i)))
              else if k \<in> set fields_of_interest
                then map_of (fields_of (snd (games_of bucket ! i))) k
              else None)"
    by (simp add: day_records_games[OF t] map_of_event_record)
qed

theorem extract_scoreboard_skips_empty_days_witness:
  "extract_scoreboard_fields_of_interest [''event_date'', ''away_team_id'']
     [(''2020-01-12'', JArr []),
      (''2020-01-13'', JObj [(''data'', JObj
         [(''1233827'', JObj [(''event_date'', JStr ''2020-01-13 18:30''),
                             (''away_team_id'', JStr ''T1''), (''venue'', JStr ''V'')]),
          (''1233828'', JObj [(''event_date'', JStr ''2020-01-13 21:00'')])])])]
   = Inr [[(''event_date'', JStr ''2020-01-13 18:30''), (''away_team_id'', JStr ''T1''),
           (''event_id'', JStr ''1233827'')],
          [(''event_date'', JStr ''2020-01-13 21:00''), (''event_id'', JStr ''1233828'')]]
   \<and> day_records [''event_date'', ''away_team_id''] (JArr []) = []"
proof -
  let ?P = "[(''2020-01-12'', JArr []),
      (''2020-01-13'', JObj [(''data'', JObj
         [(''1233827'', JObj [(''event_date'', JStr ''2020-01-13 18:30''),
                             (''away_team_id'', JStr ''T1''), (''venue'', JStr ''V'')]),
          (''1233828'', JObj [(''event_date'', JStr ''2020-01-13 21:00'')])])])]"
  let ?O = "[[(''event_date'', JStr ''2020-01-13 18:30''), (''away_team_id'', JStr ''T1''),
           (''event_id'', JStr ''1233827'')],
          [(''event_date'', JStr ''2020-01-13 21:00''), (''event_id'', JStr ''1233828'')]]"
  have wf: "list_all (\<lambda>entry. day_well_formed (snd entry)) ?P"
    by code_simp
  have recs: "?O = concat (map (\<lambda>entry. day_records [''event_date'', ''away_team_id''] (snd entry)) ?P)"
    by code_simp
  have empty: "\<not> py_truthy (JArr [])" by simp
  note inst = extract_scoreboard_skips_empty_days
         [of "[''event_date'', ''away_team_id'']" ?P ?O "JArr []"]
  from inst[THEN conjunct1, THEN iffD2, OF conjI[OF wf recs]]
       inst[THEN conjunct2, THEN conjunct1, THEN mp, OF empty]
  show ?thesis by (rule conjI)
qed

section \<open>Splitting the date-time field\<close>

lemma add_date_and_time_to_Inr:
  assumes "add_date_and_time_to r = Inr r'"
  shows "\<exists>s d t. map_of r ''event_date'' = Some (JStr s) \<and> split_datetime s = Inr (d, t)
           \<and> r' = dict_set (dict_set r ''event_date'' (JStr d)) ''event_time'' (JStr t)"
proof (cases "map_of r ''event_date''")
  case None
  with assms show ?thesis by (simp add: add_date_and_time_to_def)
next
  case (Some v)
  show ?thesis
  proof (cases v)
    case (JStr s)
    with Some assms show ?thesis
      by (cases "split_datetime s") (auto simp: add_date_and_time_to_def)
  qed (use Some assms in \<open>simp_all add: add_date_and_time_to_def\<close>)
qed

lemma add_date_and_time_nth:
  "add_date_and_time rs = Inr out \<Longrightarrow>
     length out = length rs \<and> (\<forall>i<length rs. add_date_and_time_to (rs ! i) = Inr (out ! i))"
proof (induction rs arbitrary: out)
  case Nil
  then show ?case by simp
next
  case (Cons r rs)
  from Cons.prems obtain r' out' where
    r: "add_date_and_time_to r = Inr r'" and
    rest: "add_date_and_time rs = Inr out'" and out: "out = r' # out'"
    by (auto simp: bind_result_eq_Inr)
  from Cons.IH[OF rest] r out show ?case
    by (auto simp: nth_Cons split: nat.splits)
qed

lemma add_date_and_time_first_error:
  "\<forall>j<i. \<exists>r'. add_date_and_time_to (rs ! j) = Inr r' \<Longrightarrow> i < length rs
     \<Longrightarrow> add_date_and_time_to (rs ! i) = Inl e \<Longrightarrow> add_date_and_time rs = Inl e"
proof (induction rs arbitrary: i)
  case Nil
  then show ?case by simp
next
  case (Cons r rs)
  show ?case
  proof (cases i)
    case 0
    with Cons.prems show ?thesis by simp
  next
    case (Suc k)
    from Cons.prems(1) Suc obtain r' where r: "add_date_and_time_to r = Inr r'"
      by fastforce
    have "\<forall>j<k. \<exists>r'. add_date_and_time_to (rs ! j) = Inr r'"
      using Cons.prems(1) Suc by (metis Suc_less_eq nth_Cons_Suc)
    from Cons.IH[OF this] Cons.prems(2,3) Suc have "add_date_and_time rs = Inl e"
      by simp
    with r show ?thesis by simp
  qed
qed

lemma add_date_and_time_fails:
  "r \<in> set rs \<Longrightarrow> add_date_and_time_to r = Inl e \<Longrightarrow> \<exists>e'. add_date_and_time rs = Inl e'"
proof (induction rs)
  case Nil
  then show ?case by simp
next
  case (Cons a rs)
  show ?case
  proof (cases "add_date_and_time_to a")
    case (Inl e0)
    then show ?thesis by simp
  next
    case (Inr a')
    with Cons obtain e' where "add_date_and_time rs = Inl e'" by auto
    with Inr show ?thesis by simp
  qed
qed

lemma add_date_and_time_to_missing:
  "map_of r ''event_date'' = None \<Longrightarrow> add_date_and_time_to r = Inl (KeyError event_date_missing)"
  by (simp add: add_date_and_time_to_def)

lemma add_date_and_time_to_ok:
  "map_of r ''event_date'' = Some (JStr s) \<Longrightarrow> split_datetime s = Inr p
    \<Longrightarrow> \<exists>r'. add_date_and_time_to r = Inr r'"
  by (cases p) (simp add: add_date_and_time_to_def)


lemma date_parses_iff: "date_parses r \<longleftrightarrow> (\<exists>r'. add_date_and_time_to r = Inr r')"
proof (cases "map_of r ''event_date''")
  case None
  then show ?thesis by (simp add: date_parses_def add_date_and_time_to_def)
next
  case (Some v)
  show ?thesis
  proof (cases v)
    case (JStr s)
    show ?thesis
    proof (cases "split_datetime s")
      case (Inl e)
      with Some JStr show ?thesis by (simp add: date_parses_def add_date_and_time_to_def)
    next
      case (Inr p)
      with Some JStr show ?thesis
        by (cases p) (simp add: date_parses_def add_date_and_time_to_def)
    qed
  qed (use Some in \<open>simp_all add: date_parses_def add_date_and_time_to_def\<close>)
qed

lemma add_date_and_time_returns: 
  "(\<exists>out. add_date_and_time rs = Inr out) \<longleftrightarrow> list_all date_parses rs"
proof (induction rs)
  case Nil
  then show ?case by simp
next
  case (Cons r rs)
  show ?case
  proof (cases "add_date_and_time_to r")
    case (Inl e)
    then have "\<not> date_parses r" by (simp add: date_parses_iff)
    with Inl show ?thesis by simp
  next
    case (Inr r')
    then have "date_parses r" using date_parses_iff by blast
    with Inr Cons.IH show ?thesis
      by (cases "add_date_and_time rs") auto
  qed
qed

lemma date_parsesD:
  "date_parses r \<Longrightarrow> \<exists>s p. map_of r ''event_date'' = Some (JStr s) \<and> split_datetime s = Inr p"
  by (auto simp: date_parses_def split: option.splits json.splits sum.splits)

text \<open>
  The claim fails when a record before the one that lacks the field holds a date-time
  that does not parse: the loop stops there, with the \<^verbatim>\<open>ValueError\<close> of \<^verbatim>\<open>strptime\<close>.
\<close>

theorem add_date_and_time_format_error_first:
  "map_of ([[(''event_date'', JStr ''2020-01-12'')], [(''event_id'', JStr ''e2'')]] ! 1)
      ''event_date'' = None
   \<and> add_date_and_time [[(''event_date'', JStr ''2020-01-12'')], [(''event_id'', JStr ''e2'')]]
      = Inl (ValueError ''time data does not match format'')"
  by code_simp

text \<open>
  C9, amended. \<open>add_date_and_time\<close> returns exactly when every record holds a date-time
  string that parses, and then it returns one record per record it was given, each with
  the date of its date-time string under \<^verbatim>\<open>event_date\<close>, the time under
  \<^verbatim>\<open>event_time\<close> and every other field unchanged. Whenever some record lacks the
  \<^verbatim>\<open>event_date\<close> key, the function fails; the failure is the \<^verbatim>\<open>KeyError\<close> with the
  message about the missing column when each record before the first one that lacks
  the key holds a date-time string that parses.
\<close>

theorem add_date_and_time_splits_every_record:
  "((\<exists>out. add_date_and_time response_data = Inr out) \<longleftrightarrow> list_all date_parses response_data)
   \<and> (add_date_and_time response_data = Inr out \<longrightarrow>
      length out = length response_data \<and>
      (\<forall>i<length response_data. \<exists>s d t.
         map_of (response_data ! i) ''event_date'' = Some (JStr s) \<and>
         split_datetime s = Inr (d, t) \<and>
         map_of (out ! i) ''event_date'' = Some (JStr d) \<and>
         map_of (out ! i) ''event_time'' = Some (JStr t) \<and>
         (\<forall>k. k \<noteq> ''event_date'' \<and> k \<noteq> ''event_time''
            \<longrightarrow> map_of (out ! i) k = map_of (response_data ! i) k)))
   \<and> ((\<exists>r \<in> set response_data. map_of r ''event_date'' = None)
        \<longrightarrow> (\<exists>e. add_date_and_time response_data = Inl e))
   \<and> (n < length response_data \<and> map_of (response_data ! n) ''event_date'' = None \<and>
       (\<forall>j<n. date_parses (response_data ! j))
        \<longrightarrow> add_date_and_time response_data = Inl (KeyError event_date_missing))"
proof (intro conjI impI)
  show "(\<exists>out. add_date_and_time response_data = Inr out) \<longleftrightarrow> list_all date_parses response_data"
    by (rule add_date_and_time_returns)
next
  assume ok: "add_date_and_time response_data = Inr out"
  from add_date_and_time_nth[OF ok] show "length out = length response_data" by simp
  show "\<forall>i<length response_data. \<exists>s d t.
         map_of (response_data ! i) ''event_date'' = Some (JStr s) \<and>
         split_datetime s = Inr (d, t) \<and>
         map_of (out ! i) ''event_date'' = Some (JStr d) \<and>
         map_of (out ! i) ''event_time'' = Some (JStr t) \<and>
         (\<forall>k. k \<noteq> ''event_date'' \<and> k \<noteq> ''event_time''
            \<longrightarrow> map_of (out ! i) k = map_of (response_data ! i) k)"
  proof (intro allI impI)
    fix i assume "i < length response_data"
    with add_date_and_time_nth[OF ok]
    have "add_date_and_time_to (response_data ! i) = Inr (out ! i)" by simp
    from add_date_and_time_to_Inr[OF this] obtain s d t where
      "map_of (response_data ! i) ''event_date'' = Some (JStr s)"
      "split_datetime s = Inr (d, t)"
      "out ! i = dict_set (dict_set (response_data ! i) ''event_date'' (JStr d))
                   ''event_time'' (JStr t)"
      by blast
    then show "\<exists>s d t.
         map_of (response_data ! i) ''event_date'' = Some (JStr s) \<and>
         split_datetime s = Inr (d, t) \<and>
         map_of (out ! i) ''event_date'' = Some (JStr d) \<and>
         map_of (out ! i) ''event_time'' = Some (JStr t) \<and>
         (\<forall>k. k \<noteq> ''event_date'' \<and> k \<noteq> ''event_time''
            \<longrightarrow> map_of (out ! i) k = map_of (response_data ! i) k)"
      by (simp add: map_of_dict_set)
  qed
next
  assume "\<exists>r \<in> set response_data. map_of r ''event_date'' = None"
  then show "\<exists>e. add_date_and_time response_data = Inl e"
    using add_date_and_time_fails add_date_and_time_to_missing by blast
next
  assume a: "n < length response_data \<and> map_of (response_data ! n) ''event_date'' = None \<and>
       (\<forall>j<n. date_parses (response_data ! j))"
  then have "\<forall>j<n. \<exists>r'. add_date_and_time_to (response_data ! j) = Inr r'"
    using date_parses_iff by blast
  from add_date_and_time_first_error[OF this] a add_date_and_time_to_missing
  show "add_date_and_time response_data = Inl (KeyError event_date_missing)"
    by blast
qed

lemma split_example: "split_datetime ''2020-01-12 18:30'' = Inr (''12-01-2020'', ''18:30'')"
  by code_simp

lemma split_example2: "split_datetime ''2020-01-13 21:05'' = Inr (''13-01-2020'', ''21:05'')"
  by code_simp

theorem add_date_and_time_splits_every_record_witness:
  "add_date_and_time [[(''event_date'', JStr ''2020-01-12 18:30''), (''event_id'', JStr ''e1'')],
                      [(''event_id'', JStr ''e2''), (''event_date'', JStr ''2020-01-13 21:05'')]]
     = Inr [[(''event_date'', JStr ''12-01-2020''), (''event_id'', JStr ''e1''),
             (''event_time'', JStr ''18:30'')],
            [(''event_id'', JStr ''e2''), (''event_date'', JStr ''13-01-2020''),
             (''event_time'', JStr ''21:05'')]]
   \<and> list_all date_parses
        [[(''event_date'', JStr ''2020-01-12 18:30''), (''event_id'', JStr ''e1'')],
         [(''event_id'', JStr ''e2''), (''event_date'', JStr ''2020-01-13 21:05'')]]
   \<and> add_date_and_time [[(''event_date'', JStr ''2020-01-12 18:30'')], [(''event_id'', JStr ''e2'')]]
     = Inl (KeyError event_date_missing)"
proof -
  let ?A = "[[(''event_date'', JStr ''2020-01-12 18:30'')], [(''event_id'', JStr ''e2'')]]"
  let ?B = "[[(''event_date'', JStr ''2020-01-12 18:30''), (''event_id'', JStr ''e1'')],
             [(''event_id'', JStr ''e2''), (''event_date'', JStr ''2020-01-13 21:05'')]]"
  let ?O = "[[(''event_date'', JStr ''12-01-2020''), (''event_id'', JStr ''e1''),
              (''event_time'', JStr ''18:30'')],
             [(''event_id'', JStr ''e2''), (''event_date'', JStr ''13-01-2020''),
              (''event_time'', JStr ''21:05'')]]"
  have run: "add_date_and_time ?B = Inr ?O"
    using split_example split_example2 by (simp add: add_date_and_time_to_def)
  then have ex: "\<exists>out. add_date_and_time ?B = Inr out" by (rule exI)
  have parses: "list_all date_parses ?B"
    using add_date_and_time_splits_every_record[of ?B, THEN conjunct1] ex by (rule iffD1)
  have p0: "date_parses (?A ! 0)"
    using split_example by (simp add: date_parses_def)
  have earlier: "\<forall>j<1. date_parses (?A ! j)"
  proof (intro allI impI)
    fix j :: nat assume "j < 1"
    then have "j = 0" by simp
    with p0 show "date_parses (?A ! j)" by simp
  qed
  have missing: "(1::nat) < length ?A \<and> map_of (?A ! 1) ''event_date'' = None \<and>
       (\<forall>j<1. date_parses (?A ! j))"
    using earlier by simp
  have fails: "add_date_and_time ?A = Inl (KeyError event_date_missing)"
    using add_date_and_time_splits_every_record[of ?A "[]" 1, THEN conjunct2, THEN conjunct2,
        THEN conjunct2] missing by (rule mp)
  from run parses fails show ?thesis by (intro conjI)
qed

section \<open>The join of events and rankings\<close>


lemma dict_get_eq_Inl: "dict_get d k = Inl e \<longleftrightarrow> map_of d k = None \<and> e = KeyError k"
  by (auto simp: dict_get_def split: option.splits)




















lemma matches_JStr: "matches (JStr s) team \<longleftrightarrow> map_of team ''team_id'' = Some (JStr s)"
  by (auto simp: matches_def split: option.splits)

lemma distinct_strings_no_common_match:
  "s \<noteq> s' \<Longrightarrow> list_all (\<lambda>t. \<not> (matches (JStr s) t \<and> matches (JStr s') t)) team_rankings"
  by (simp add: list_all_iff matches_JStr)






subsection \<open>Runs on the example data\<close>




lemma run_unmatched_first: "transform_json_data [game_record ''e2'' ''T9'' ''T2'']
      [ranking_record ''T1'' 5 10, ranking_record ''T2'' 2 20]
    = Inl (UnboundLocalError ''away_team_rank'')"
  by code_simp

subsection \<open>Matched teams\<close>






subsection \<open>Unmatched teams\<close>











end
